theory Spec2Isabelle
  imports Complex_Main "HOL-Library.AList"
begin

section \<open>Numbers\<close>

text \<open>
  The cost engine computes with JavaScript numbers. Configuration constants and context
  values (YAML numerals, parsed form inputs) are finite and are modelled as \<open>real\<close>.
  A computed number can also be infinite (division by zero) or NaN, which the engine
  tests with \<open>isNaN\<close>; computed numbers are \<open>jsnum\<close>. Arithmetic is exact: rounding,
  overflow and the sign of zero are not modelled.
\<close>

datatype jsnum = Fin real | PosInf | NegInf | NaN

definition isNaN :: "jsnum \<Rightarrow> bool" where
  "isNaN x = (x = NaN)"

definition infBy :: "real \<Rightarrow> jsnum" where
  "infBy s = (if 0 < s then PosInf else if s < 0 then NegInf else NaN)"

fun sgnOf :: "jsnum \<Rightarrow> real" where
  "sgnOf (Fin r) = sgn r"
| "sgnOf PosInf = 1"
| "sgnOf NegInf = - 1"
| "sgnOf NaN = 0"

fun jsNeg :: "jsnum \<Rightarrow> jsnum" where
  "jsNeg (Fin r) = Fin (- r)"
| "jsNeg PosInf = NegInf"
| "jsNeg NegInf = PosInf"
| "jsNeg NaN = NaN"

fun jsAdd :: "jsnum \<Rightarrow> jsnum \<Rightarrow> jsnum" where
  "jsAdd (Fin a) (Fin b) = Fin (a + b)"
| "jsAdd NaN _ = NaN"
| "jsAdd _ NaN = NaN"
| "jsAdd PosInf NegInf = NaN"
| "jsAdd NegInf PosInf = NaN"
| "jsAdd PosInf _ = PosInf"
| "jsAdd NegInf _ = NegInf"
| "jsAdd (Fin a) b = b"

definition jsSub :: "jsnum \<Rightarrow> jsnum \<Rightarrow> jsnum" where
  "jsSub a b = jsAdd a (jsNeg b)"

fun jsMul :: "jsnum \<Rightarrow> jsnum \<Rightarrow> jsnum" where
  "jsMul (Fin a) (Fin b) = Fin (a * b)"
| "jsMul NaN _ = NaN"
| "jsMul _ NaN = NaN"
| "jsMul a b = infBy (sgnOf a * sgnOf b)"

fun jsDiv :: "jsnum \<Rightarrow> jsnum \<Rightarrow> jsnum" where
  "jsDiv (Fin a) (Fin b) = (if b = 0 then infBy a else Fin (a / b))"
| "jsDiv NaN _ = NaN"
| "jsDiv _ NaN = NaN"
| "jsDiv (Fin a) _ = Fin 0"
| "jsDiv a (Fin b) = infBy (sgnOf a * (if 0 \<le> b then 1 else - 1))"
| "jsDiv _ _ = NaN"

text \<open>
  \<open>Math.pow\<close> on finite arguments: a zero exponent gives 1, a negative base with a
  fractional exponent gives NaN, a zero base with a negative exponent gives Infinity.
\<close>

definition mathPow :: "real \<Rightarrow> real \<Rightarrow> jsnum" where
  "mathPow x y =
     (if y = of_int \<lfloor>y\<rfloor> then
        (if 0 \<le> y then Fin (x ^ nat \<lfloor>y\<rfloor>)
         else if x = 0 then PosInf
         else Fin (inverse (x ^ nat (- \<lfloor>y\<rfloor>))))
      else if x < 0 then NaN
      else if x = 0 then (if 0 < y then Fin 0 else PosInf)
      else Fin (x powr y))"

section \<open>Objects, contexts and the host runtime\<close>

text \<open>
  A JavaScript object with string keys is an association list in property order;
  assignment \<open>o[k] = v\<close> is \<open>AList.update\<close> (in place for an existing key, appended
  otherwise). Only own properties are modelled. A variable context maps names to
  numbers; \<open>None\<close> stands for a property holding \<open>null\<close> or \<open>undefined\<close>.
\<close>

type_synonym jscontext = "(string \<times> real option) list"

definition getProp :: "jscontext \<Rightarrow> string \<Rightarrow> real option" where
  "getProp ctx k = (case map_of ctx k of Some (Some v) \<Rightarrow> Some v | _ \<Rightarrow> None)"

text \<open>\<open>context[k] || d\<close>: a missing, null or zero value gives the default.\<close>

definition propOr :: "jscontext \<Rightarrow> string \<Rightarrow> real \<Rightarrow> real" where
  "propOr ctx k d = (case getProp ctx k of Some v \<Rightarrow> (if v = 0 then d else v) | None \<Rightarrow> d)"

text \<open>Object spread \<open>{...a, ...b}\<close>.\<close>

definition spread :: "('k \<times> 'v) list \<Rightarrow> ('k \<times> 'v) list \<Rightarrow> ('k \<times> 'v) list" where
  "spread a b = fold (\<lambda>(k, v). AList.update k v) b a"

text \<open>
  The engine relies on two facilities of its host: the conversion of a number to a
  string (inside \<open>String.prototype.replace\<close>) and the \<open>Function\<close> constructor, which it
  calls as \<open>Function('"use strict"; return (' + e + ')')()\<close>. Both are parameters of the
  model; \<open>runReturn rt e\<close> is the outcome of that call for the sanitized text \<open>e\<close>. A
  returned value that is not a number (only a regular expression literal or a string
  built from one can be written in the sanitized alphabet) converts to NaN under
  \<open>isNaN\<close> and is represented by \<open>NaN\<close>.
\<close>

datatype outcome = Returns jsnum | Throws

record runtime =
  numberToString :: "real \<Rightarrow> string"
  runReturn :: "string \<Rightarrow> outcome"

section \<open>Expression evaluator\<close>

text \<open>
  Characters are code units below 256. \<open>\w\<close> is a letter, digit or underscore;
  \<open>\s\<close> is TAB, LF, VT, FF, CR, space or NBSP.
\<close>

definition isDigit :: "char \<Rightarrow> bool" where
  "isDigit c = (c \<in> set ''0123456789'')"

definition isLetter :: "char \<Rightarrow> bool" where
  "isLetter c = (c \<in> set ''abcdefghijklmnopqrstuvwxyzABCDEFGHIJKLMNOPQRSTUVWXYZ'')"

definition isWordChar :: "char \<Rightarrow> bool" where
  "isWordChar c = (isLetter c \<or> isDigit c \<or> c = CHR ''_'')"

definition isSpace :: "char \<Rightarrow> bool" where
  "isSpace c = (c \<in> set [CHR 0x09, CHR 0x0A, CHR 0x0B, CHR 0x0C, CHR 0x0D, CHR '' '', CHR 0xA0])"

text \<open>
  \<open>\b\<close> after a match ending in \<open>prev\<close>, with \<open>rest\<close> the text that follows: exactly one
  side is a word character.
\<close>

definition wordBoundary :: "char \<Rightarrow> string \<Rightarrow> bool" where
  "wordBoundary prev rest =
     (isWordChar prev \<noteq> (case rest of [] \<Rightarrow> False | d # _ \<Rightarrow> isWordChar d))"

fun startsWith :: "string \<Rightarrow> string \<Rightarrow> bool" where
  "startsWith s [] = True"
| "startsWith [] (p # ps) = False"
| "startsWith (c # cs) (p # ps) = (c = p \<and> startsWith cs ps)"

text \<open>
  The regular expression \<open>\$key\b\<close> at the head of \<open>s\<close>. The key is matched literally,
  which is what the expression does for a key without a character that is special in a
  regular expression; variable names are made of word characters.
\<close>

definition matchesVar :: "string \<Rightarrow> string \<Rightarrow> bool" where
  "matchesVar key s =
     (startsWith s (CHR ''$'' # key) \<and>
      wordBoundary (last (CHR ''$'' # key)) (drop (Suc (length key)) s))"

text \<open>\<open>s.replace(new RegExp('\\$' + key + '\\b', 'g'), rep)\<close>.\<close>

function replaceVar :: "string \<Rightarrow> string \<Rightarrow> string \<Rightarrow> string" where
  "replaceVar key rep [] = []"
| "replaceVar key rep (c # cs) =
     (if matchesVar key (c # cs) then rep @ replaceVar key rep (drop (length key) cs)
      else c # replaceVar key rep cs)"
  by pat_completeness auto
termination
  by (relation "measure (\<lambda>(key, rep, s). length s)") auto

text \<open>The first loop of \<open>evaluateExpression\<close>, over \<open>Object.entries(context)\<close>.\<close>

fun substituteContext :: "runtime \<Rightarrow> jscontext \<Rightarrow> string \<Rightarrow> string" where
  "substituteContext rt [] s = s"
| "substituteContext rt ((key, None) # ctx) s = substituteContext rt ctx s"
| "substituteContext rt ((key, Some v) # ctx) s =
     substituteContext rt ctx (replaceVar key (numberToString rt v) s)"

text \<open>\<open>s.match(/\$\w+/g)\<close>: the matched texts, sigil included (empty when \<open>null\<close>).\<close>

function matchDollarWords :: "string \<Rightarrow> string list" where
  "matchDollarWords [] = []"
| "matchDollarWords (c # cs) =
     (if c = CHR ''$'' \<and> takeWhile isWordChar cs \<noteq> []
      then (c # takeWhile isWordChar cs) # matchDollarWords (dropWhile isWordChar cs)
      else matchDollarWords cs)"
  by pat_completeness auto
termination
  by (relation "measure length") (auto simp: length_dropWhile_le less_Suc_eq_le)

text \<open>The second loop: every unreplaced variable becomes \<open>0\<close>.\<close>

definition replaceUnreplaced :: "string \<Rightarrow> string" where
  "replaceUnreplaced s =
     fold (\<lambda>unreplacedVar acc. replaceVar (tl unreplacedVar) ''0'' acc) (matchDollarWords s) s"

definition isSafeChar :: "char \<Rightarrow> bool" where
  "isSafeChar c = (isDigit c \<or> c \<in> set ''+-*/().'' \<or> isSpace c)"

text \<open>\<open>s.replace(/[^0-9+\-*/().\s]/g, '')\<close>.\<close>

definition sanitize :: "string \<Rightarrow> string" where
  "sanitize s = filter isSafeChar s"

definition trim :: "string \<Rightarrow> string" where
  "trim s = rev (dropWhile isSpace (rev (dropWhile isSpace s)))"

text \<open>\<open>isNaN(result) ? 0 : result\<close>.\<close>

definition nanToZero :: "jsnum \<Rightarrow> jsnum" where
  "nanToZero result = (if isNaN result then Fin 0 else result)"

definition processExpression :: "runtime \<Rightarrow> string \<Rightarrow> jscontext \<Rightarrow> string" where
  "processExpression rt expression ctx = replaceUnreplaced (substituteContext rt ctx expression)"

definition evaluateExpression :: "runtime \<Rightarrow> string \<Rightarrow> jscontext \<Rightarrow> jsnum" where
  "evaluateExpression rt expression ctx =
     (let safeExpression = sanitize (processExpression rt expression ctx)
      in if trim safeExpression = [] then Fin 0
         else (case runReturn rt safeExpression of
                 Throws \<Rightarrow> Fin 0
               | Returns result \<Rightarrow> nanToZero result))"

section \<open>A runtime for plain arithmetic\<close>

text \<open>
  The concrete examples below run on \<open>plainRuntime\<close>, which evaluates what a JavaScript
  engine evaluates on plain arithmetic: decimal literals, the binary operators
  \<open>+ - * /\<close> with their precedence and left associativity, unary sign, and parentheses,
  over the text \<open>(e)\<close> that follows \<open>return\<close>. It rejects everything else. It agrees with
  an engine on such text only: it does not implement the exponent operator \<open>**\<close>,
  comments, regular expression literals or automatic semicolon insertion after a line
  terminator, and no example uses them. The general theorems hold for every runtime.
\<close>

datatype token = TNum real | TPlus | TMinus | TStar | TSlash | TOpen | TClose

definition digitVal :: "char \<Rightarrow> real" where
  "digitVal c = real (of_char c - 48)"

definition intPart :: "string \<Rightarrow> real" where
  "intPart ds = foldl (\<lambda>a d. 10 * a + digitVal d) 0 ds"

definition fracPart :: "string \<Rightarrow> real" where
  "fracPart ds = foldr (\<lambda>d a. (digitVal d + a) / 10) ds 0"

text \<open>
  A decimal literal at the head of the text: integer digits, then optionally a point and
  fraction digits. A lone point is no literal, and in strict code neither is a literal
  with a leading zero followed by a digit.
\<close>

definition lexNumber :: "string \<Rightarrow> (real \<times> string) option" where
  "lexNumber s =
     (let ip = takeWhile isDigit s; r1 = dropWhile isDigit s;
          hasPoint = (r1 \<noteq> [] \<and> hd r1 = CHR ''.'');
          fp = (if hasPoint then takeWhile isDigit (tl r1) else []);
          r2 = (if hasPoint then dropWhile isDigit (tl r1) else r1)
      in if ip = [] \<and> fp = [] then None
         else if 1 < length ip \<and> hd ip = CHR ''0'' then None
         else Some (intPart ip + fracPart fp, r2))"

function tokenize :: "string \<Rightarrow> token list option" where
  "tokenize [] = Some []"
| "tokenize (c # cs) =
     (if isSpace c then tokenize cs
      else if isDigit c \<or> c = CHR ''.'' then
        (case lexNumber (c # cs) of
           None \<Rightarrow> None
         | Some (v, r) \<Rightarrow> map_option (\<lambda>ts. TNum v # ts) (tokenize r))
      else if c = CHR ''('' then map_option (\<lambda>ts. TOpen # ts) (tokenize cs)
      else if c = CHR '')'' then map_option (\<lambda>ts. TClose # ts) (tokenize cs)
      else if cs \<noteq> [] \<and> c \<in> set ''+-*'' \<and> hd cs = c then None
      else if cs \<noteq> [] \<and> c = CHR ''/'' \<and> hd cs \<in> set ''/*'' then None
      else if c = CHR ''+'' then map_option (\<lambda>ts. TPlus # ts) (tokenize cs)
      else if c = CHR ''-'' then map_option (\<lambda>ts. TMinus # ts) (tokenize cs)
      else if c = CHR ''*'' then map_option (\<lambda>ts. TStar # ts) (tokenize cs)
      else if c = CHR ''/'' then map_option (\<lambda>ts. TSlash # ts) (tokenize cs)
      else None)"
  by pat_completeness auto
termination
proof -
  have shorter: "length r < Suc (length cs)" if h: "lexNumber (c # cs) = Some (v, r)"
    for c cs v r
  proof -
    let ?r1 = "dropWhile isDigit (c # cs)"
    have le1: "length ?r1 \<le> Suc (length cs)"
      using length_dropWhile_le [of isDigit "c # cs"] by simp
    show ?thesis
    proof (cases "?r1 \<noteq> [] \<and> hd ?r1 = CHR ''.''")
      case True
      then have r: "r = dropWhile isDigit (tl ?r1)"
        using h by (simp add: lexNumber_def Let_def split: if_splits)
      have "length (tl ?r1) < length ?r1" using True by (cases ?r1) auto
      moreover have "length r \<le> length (tl ?r1)"
        unfolding r by (rule length_dropWhile_le)
      ultimately show ?thesis using le1 by linarith
    next
      case False
      then have r: "r = ?r1" and ne: "takeWhile isDigit (c # cs) \<noteq> []"
        using h by (auto simp add: lexNumber_def Let_def split: if_splits)
      from ne have "isDigit c" by (auto split: if_splits)
      then have "?r1 = dropWhile isDigit cs" by simp
      then show ?thesis
        using r length_dropWhile_le [of isDigit cs] by simp
    qed
  qed
  show ?thesis
    by (relation "measure length") (auto dest: shorter)
qed

text \<open>
  Operator-precedence evaluation with a value stack and an operator stack; \<open>OParen\<close>
  marks an open parenthesis.
\<close>

datatype stackop = OAdd | OSub | OMul | ODiv | ONeg | OPos | OParen

fun prec :: "stackop \<Rightarrow> nat" where
  "prec OParen = 0"
| "prec OAdd = 1"
| "prec OSub = 1"
| "prec OMul = 2"
| "prec ODiv = 2"
| "prec ONeg = 3"
| "prec OPos = 3"

fun applyOp :: "stackop \<Rightarrow> jsnum list \<Rightarrow> jsnum list option" where
  "applyOp OAdd (b # a # vs) = Some (jsAdd a b # vs)"
| "applyOp OSub (b # a # vs) = Some (jsSub a b # vs)"
| "applyOp OMul (b # a # vs) = Some (jsMul a b # vs)"
| "applyOp ODiv (b # a # vs) = Some (jsDiv a b # vs)"
| "applyOp ONeg (a # vs) = Some (jsNeg a # vs)"
| "applyOp OPos (a # vs) = Some (a # vs)"
| "applyOp _ _ = None"

fun reduceWhile :: "(stackop \<Rightarrow> bool) \<Rightarrow> stackop list \<Rightarrow> jsnum list \<Rightarrow>
    (stackop list \<times> jsnum list) option" where
  "reduceWhile p [] vs = Some ([], vs)"
| "reduceWhile p (op # ops) vs =
     (if p op then (case applyOp op vs of None \<Rightarrow> None | Some vs' \<Rightarrow> reduceWhile p ops vs')
      else Some (op # ops, vs))"

definition binaryOf :: "token \<Rightarrow> stackop option" where
  "binaryOf t = (case t of TPlus \<Rightarrow> Some OAdd | TMinus \<Rightarrow> Some OSub
                 | TStar \<Rightarrow> Some OMul | TSlash \<Rightarrow> Some ODiv | _ \<Rightarrow> None)"

text \<open>\<open>operand\<close> tells whether the next token must start an operand.\<close>

fun parseTokens :: "token list \<Rightarrow> bool \<Rightarrow> stackop list \<Rightarrow> jsnum list \<Rightarrow> jsnum option" where
  "parseTokens [] operand ops vs =
     (if operand then None
      else (case reduceWhile (\<lambda>op. op \<noteq> OParen) ops vs of
              Some ([], [v]) \<Rightarrow> Some v
            | _ \<Rightarrow> None))"
| "parseTokens (t # ts) True ops vs =
     (case t of
        TNum r \<Rightarrow> parseTokens ts False ops (Fin r # vs)
      | TOpen \<Rightarrow> parseTokens ts True (OParen # ops) vs
      | TPlus \<Rightarrow> parseTokens ts True (OPos # ops) vs
      | TMinus \<Rightarrow> parseTokens ts True (ONeg # ops) vs
      | _ \<Rightarrow> None)"
| "parseTokens (t # ts) False ops vs =
     (if t = TClose then
        (case reduceWhile (\<lambda>op. op \<noteq> OParen) ops vs of
           Some (OParen # ops', vs') \<Rightarrow> parseTokens ts False ops' vs'
         | _ \<Rightarrow> None)
      else (case binaryOf t of
              None \<Rightarrow> None
            | Some bop \<Rightarrow>
                (case reduceWhile (\<lambda>op. prec bop \<le> prec op) ops vs of
                   None \<Rightarrow> None
                 | Some (ops', vs') \<Rightarrow> parseTokens ts True (bop # ops') vs')))"

definition arithReturn :: "string \<Rightarrow> outcome" where
  "arithReturn e =
     (case tokenize (''('' @ e @ '')'') of
        None \<Rightarrow> Throws
      | Some ts \<Rightarrow> (case parseTokens ts True [] [] of None \<Rightarrow> Throws | Some v \<Rightarrow> Returns v))"

text \<open>
  Decimal notation of a number: the digits of an integer; for other values the integer
  part, a point and up to twenty fraction digits. (An engine switches to exponent
  notation for very large and very small magnitudes.)
\<close>

function natDigits :: "nat \<Rightarrow> string" where
  "natDigits n =
     (if n < 10 then [char_of (48 + n)]
      else natDigits (n div 10) @ [char_of (48 + n mod 10)])"
  by pat_completeness auto
termination
  by (relation "measure id") auto

fun fracDigits :: "nat \<Rightarrow> real \<Rightarrow> string" where
  "fracDigits 0 x = []"
| "fracDigits (Suc fuel) x =
     (if x = 0 then []
      else char_of (48 + nat \<lfloor>10 * x\<rfloor>) # fracDigits fuel (10 * x - of_int \<lfloor>10 * x\<rfloor>))"

definition decimalString :: "real \<Rightarrow> string" where
  "decimalString x =
     (let a = \<bar>x\<bar>; n = nat \<lfloor>a\<rfloor>; f = a - of_int \<lfloor>a\<rfloor>
      in (if x < 0 then ''-'' else []) @ natDigits n @
         (if f = 0 then [] else CHR ''.'' # fracDigits 20 f))"

definition plainRuntime :: runtime where
  "plainRuntime = \<lparr>numberToString = decimalString, runReturn = arithReturn\<rparr>"

section \<open>Formula definitions\<close>

text \<open>
  A formula definition is a number, a string, \<open>null\<close>/\<open>undefined\<close>, a boolean, or an
  object: tagged \<open>tiered\<close>, \<open>multiplier\<close> or \<open>conditional\<close>, or untagged. The \<open>base\<close> of a
  multiplier formula is meant to be an expression string; a configuration can also hold
  a number there or leave it out.
\<close>

datatype rate = RateNum real | RateStr string

datatype tier = Tier (limit: "real option") (rate: rate)

datatype multiplierEntry = MultiplierEntry (variable: string) (factor: real)

datatype condition = Condition (cvariable: string) (operator: string) (cvalue: real)

datatype baseExpr = BaseString string | BaseNumber real | BaseMissing

datatype formula =
    FNumber real
  | FString string
  | FNull
  | FBool bool
  | FTiered string "tier list"
  | FMultiplier baseExpr "multiplierEntry list"
  | FConditional "(condition \<times> formula) list" "formula option"
  | FObject "(string \<times> formula) list"

datatype jserror = NoFormula string | TypeError

section \<open>Structured formula strategies\<close>

text \<open>\<open>tier.limit || remainingVolume\<close>: a missing, null or zero limit gives the remainder.\<close>

definition limitOr :: "tier \<Rightarrow> real \<Rightarrow> real" where
  "limitOr t remainingVolume =
     (case limit t of None \<Rightarrow> remainingVolume
      | Some l \<Rightarrow> (if l = 0 then remainingVolume else l))"

text \<open>The rate of a tier: a string rate is evaluated as an expression.\<close>

definition tierRate :: "runtime \<Rightarrow> jscontext \<Rightarrow> tier \<Rightarrow> jsnum" where
  "tierRate rt ctx t =
     (case rate t of RateNum n \<Rightarrow> Fin n | RateStr s \<Rightarrow> evaluateExpression rt s ctx)"

text \<open>The loop of \<open>evaluateTieredFormula\<close>, with its two variables as arguments.\<close>

fun tierLoop :: "runtime \<Rightarrow> jscontext \<Rightarrow> tier list \<Rightarrow> jsnum \<Rightarrow> real \<Rightarrow> jsnum" where
  "tierLoop rt ctx [] cost remainingVolume = cost"
| "tierLoop rt ctx (t # ts) cost remainingVolume =
     (if remainingVolume \<le> 0 then cost
      else
        (let tierVolume = min remainingVolume (limitOr t remainingVolume)
         in tierLoop rt ctx ts (jsAdd cost (jsMul (Fin tierVolume) (tierRate rt ctx t)))
              (remainingVolume - tierVolume)))"

definition evaluateTieredFormula :: "runtime \<Rightarrow> string \<Rightarrow> tier list \<Rightarrow> jscontext \<Rightarrow> jsnum" where
  "evaluateTieredFormula rt volumeVar tiers ctx = tierLoop rt ctx tiers (Fin 0) (propOr ctx volumeVar 0)"

text \<open>The loop of \<open>evaluateMultiplierFormula\<close> over the running multiplier.\<close>

fun multiplierLoop :: "jscontext \<Rightarrow> multiplierEntry list \<Rightarrow> jsnum \<Rightarrow> jsnum" where
  "multiplierLoop ctx [] multiplier = multiplier"
| "multiplierLoop ctx (m # ms) multiplier =
     (let f = propOr ctx (variable m) 1
      in multiplierLoop ctx ms
           (if 1 < f then jsMul multiplier (mathPow (factor m) (f - 1)) else multiplier))"

text \<open>
  \<open>evaluateExpression\<close> calls \<open>replace\<close> or \<open>match\<close> on its argument, so a \<open>base\<close> that is
  not a string raises a TypeError.
\<close>

definition evaluateMultiplierFormula ::
    "runtime \<Rightarrow> baseExpr \<Rightarrow> multiplierEntry list \<Rightarrow> jscontext \<Rightarrow> jserror + jsnum" where
  "evaluateMultiplierFormula rt base multipliers ctx =
     (case base of
        BaseString b \<Rightarrow>
          (let baseValue = evaluateExpression rt b ctx;
               result = jsMul baseValue (multiplierLoop ctx multipliers (Fin 1))
           in Inr (nanToZero result))
      | _ \<Rightarrow> Inl TypeError)"

definition evaluateCondition :: "condition \<Rightarrow> jscontext \<Rightarrow> bool" where
  "evaluateCondition c ctx =
     (let varValue = propOr ctx (cvariable c) 0; op = operator c; v = cvalue c
      in if op = ''>'' then v < varValue
         else if op = ''>='' then v \<le> varValue
         else if op = ''<'' then varValue < v
         else if op = ''<='' then varValue \<le> v
         else if op = ''=='' then varValue = v
         else if op = ''!='' then varValue \<noteq> v
         else False)"

text \<open>JavaScript falsiness of a formula value, as tested by \<open>!formula\<close> and \<open>||\<close>.\<close>

fun falsy :: "formula \<Rightarrow> bool" where
  "falsy (FNumber n) = (n = 0)"
| "falsy (FString s) = (s = [])"
| "falsy FNull = True"
| "falsy (FBool b) = (\<not> b)"
| "falsy _ = False"

fun isString :: "formula \<Rightarrow> bool" where
  "isString (FString s) = True"
| "isString _ = False"

fun stringOf :: "formula \<Rightarrow> string" where
  "stringOf (FString s) = s"
| "stringOf _ = []"

section \<open>Formula evaluator\<close>

text \<open>
  \<open>evaluateFormula\<close> with \<open>evaluateComplexFormula\<close> inlined: the constructors carry the
  \<open>type\<close> tag. \<open>sumValues\<close> is the default-sum loop over \<open>Object.values\<close>, and
  \<open>evaluateConditionalFormula\<close> the loop over the conditions followed by the \<open>else\<close>
  clause. A clause that is a string goes to \<open>evaluateExpression\<close>, any other to
  \<open>evaluateFormula\<close>; \<open>formula.else || 0\<close> turns a missing or falsy clause into the
  number 0, which evaluates to 0.
\<close>

function (sequential) evaluateFormula :: "runtime \<Rightarrow> formula \<Rightarrow> jscontext \<Rightarrow> jserror + jsnum"
  and sumValues :: "runtime \<Rightarrow> (string \<times> formula) list \<Rightarrow> jscontext \<Rightarrow> jsnum \<Rightarrow> jserror + jsnum"
  and evaluateConditionalFormula ::
    "runtime \<Rightarrow> (condition \<times> formula) list \<Rightarrow> formula option \<Rightarrow> jscontext \<Rightarrow> jserror + jsnum"
where
  "evaluateFormula rt (FNumber n) ctx = Inr (Fin n)"
| "evaluateFormula rt (FString s) ctx =
     (if startsWith s ''$'' then Inr (Fin (propOr ctx (tl s) 0))
      else Inr (evaluateExpression rt s ctx))"
| "evaluateFormula rt (FTiered volumeVar tiers) ctx =
     Inr (evaluateTieredFormula rt volumeVar tiers ctx)"
| "evaluateFormula rt (FMultiplier base multipliers) ctx =
     evaluateMultiplierFormula rt base multipliers ctx"
| "evaluateFormula rt (FConditional conditions els) ctx =
     evaluateConditionalFormula rt conditions els ctx"
| "evaluateFormula rt (FObject members) ctx = sumValues rt members ctx (Fin 0)"
| "evaluateFormula rt FNull ctx = Inr (Fin 0)"
| "evaluateFormula rt (FBool b) ctx = Inr (Fin 0)"
| "sumValues rt [] ctx tot = Inr tot"
| "sumValues rt ((k, v) # ms) ctx tot =
     (case evaluateFormula rt v ctx of
        Inl err \<Rightarrow> Inl err
      | Inr x \<Rightarrow> sumValues rt ms ctx (jsAdd tot x))"
| "evaluateConditionalFormula rt [] None ctx = Inr (Fin 0)"
| "evaluateConditionalFormula rt [] (Some elseClause) ctx =
     (if falsy elseClause then Inr (Fin 0)
      else if isString elseClause then Inr (evaluateExpression rt (stringOf elseClause) ctx)
      else evaluateFormula rt elseClause ctx)"
| "evaluateConditionalFormula rt ((c, thenClause) # cs) els ctx =
     (if evaluateCondition c ctx then
        (if isString thenClause then Inr (evaluateExpression rt (stringOf thenClause) ctx)
         else evaluateFormula rt thenClause ctx)
      else evaluateConditionalFormula rt cs els ctx)"
  by pat_completeness auto
termination
  by (relation "measure (\<lambda>x. case x of
        Inl (rt, f, ctx) \<Rightarrow> size f
      | Inr (Inl (rt, ms, ctx, tot)) \<Rightarrow> size_list (size_prod (\<lambda>_. 0) size) ms
      | Inr (Inr (rt, cs, els, ctx)) \<Rightarrow>
          size_list (size_prod (\<lambda>_. 0) size) cs + size_option size els)") auto

text \<open>The value of a \<open>then\<close> or \<open>else\<close> clause, as the conditional strategy computes it.\<close>

definition evaluateClause :: "runtime \<Rightarrow> formula \<Rightarrow> jscontext \<Rightarrow> jserror + jsnum" where
  "evaluateClause rt clause ctx =
     (if isString clause then Inr (evaluateExpression rt (stringOf clause) ctx)
      else evaluateFormula rt clause ctx)"


section \<open>The engine\<close>

text \<open>
  The state of a \<open>CostCalculationEngine\<close> that the calculations read: the formulas by
  service type, the systems with their cost components, the variables set so far and
  the costs of the current system. (\<open>baseCosts\<close> and \<open>multipliers\<close> are stored but never
  read by a calculation.) The repository holds the engine twice. The model follows the
  one with system support (\<open>checkServiceSupport\<close>, \<open>calculateMultiSystemCosts\<close>), which the
  application calls; \<open>src/js/cost-engine.js\<close> has the same formula and expression
  evaluators, no system costs and no support check.
\<close>

record engine =
  formulas :: "(string \<times> formula) list"
  systems :: "(string \<times> jscontext) list"
  variables :: jscontext
  currentSystemCosts :: jscontext

definition setSystemCosts :: "engine \<Rightarrow> string \<Rightarrow> jscontext \<Rightarrow> engine" where
  "setSystemCosts e systemId costs = e\<lparr>currentSystemCosts := costs\<rparr>"

definition setVariable :: "engine \<Rightarrow> string \<Rightarrow> real \<Rightarrow> engine" where
  "setVariable e name v = e\<lparr>variables := AList.update name (Some v) (variables e)\<rparr>"

definition calculateServiceCost :: "runtime \<Rightarrow> engine \<Rightarrow> string \<Rightarrow> jscontext \<Rightarrow> jserror + jsnum" where
  "calculateServiceCost rt e serviceType parameters =
     (case map_of (formulas e) serviceType of
        None \<Rightarrow> Inl (NoFormula serviceType)
      | Some f \<Rightarrow>
          (if falsy f then Inl (NoFormula serviceType)
           else evaluateFormula rt f
                  (spread (spread (currentSystemCosts e) (variables e)) parameters)))"

section \<open>Service support\<close>

text \<open>The captures of \<open>/\$([a-zA-Z_][a-zA-Z0-9_]*)/g\<close> in a string, in order.\<close>

function matchVariables :: "string \<Rightarrow> string list" where
  "matchVariables [] = []"
| "matchVariables (c # cs) =
     (if c = CHR ''$'' \<and> cs \<noteq> [] \<and> (isLetter (hd cs) \<or> hd cs = CHR ''_'')
      then takeWhile isWordChar cs # matchVariables (dropWhile isWordChar cs)
      else matchVariables cs)"
  by pat_completeness auto
termination
  by (relation "measure length") (auto simp: length_dropWhile_le less_Suc_eq_le)

text \<open>\<open>s.includes(pat)\<close>.\<close>

fun strIncludes :: "string \<Rightarrow> string \<Rightarrow> bool" where
  "strIncludes [] pat = (pat = [])"
| "strIncludes (c # cs) pat = (startsWith (c # cs) pat \<or> strIncludes cs pat)"

definition isCostVariable :: "string \<Rightarrow> bool" where
  "isCostVariable varName =
     (strIncludes varName ''_per_'' \<or> strIncludes varName ''_cost'' \<or>
      strIncludes varName ''_price'' \<or> strIncludes varName ''_base'')"

text \<open>\<open>Set.prototype.add\<close> on a set kept in insertion order.\<close>

definition setAdd :: "'a list \<Rightarrow> 'a \<Rightarrow> 'a list" where
  "setAdd xs x = (if x \<in> set xs then xs else xs @ [x])"

definition extractVars :: "string \<Rightarrow> string list \<Rightarrow> string list" where
  "extractVars str requiredVars =
     fold (\<lambda>varName acc. if isCostVariable varName then setAdd acc varName else acc)
       (matchVariables str) requiredVars"

text \<open>
  The strings that \<open>traverse\<close> reaches through \<open>Object.values\<close>, in order: the \<open>type\<close> tag
  and every string property of the formula object, at any depth.
\<close>

fun traverse :: "formula \<Rightarrow> string list" where
  "traverse (FNumber n) = []"
| "traverse (FString s) = [s]"
| "traverse FNull = []"
| "traverse (FBool b) = []"
| "traverse (FTiered volumeVar tiers) =
     ''tiered'' # volumeVar #
     concat (map (\<lambda>t. case rate t of RateStr s \<Rightarrow> [s] | RateNum n \<Rightarrow> []) tiers)"
| "traverse (FMultiplier base multipliers) =
     ''multiplier'' # (case base of BaseString b \<Rightarrow> [b] | _ \<Rightarrow> []) @ map variable multipliers"
| "traverse (FConditional conditions els) =
     ''conditional'' #
     concat (map (\<lambda>(c, thenClause). cvariable c # operator c # traverse thenClause) conditions) @
     (case els of None \<Rightarrow> [] | Some elseClause \<Rightarrow> traverse elseClause)"
| "traverse (FObject members) = concat (map (\<lambda>(k, v). traverse v) members)"

definition getRequiredVariables :: "engine \<Rightarrow> string \<Rightarrow> string list" where
  "getRequiredVariables e serviceType =
     (case map_of (formulas e) serviceType of
        None \<Rightarrow> []
      | Some f \<Rightarrow> fold extractVars (traverse f) [])"

text \<open>\<open>varName in systemCosts\<close>.\<close>

definition hasKey :: "jscontext \<Rightarrow> string \<Rightarrow> bool" where
  "hasKey obj k = (k \<in> set (map fst obj))"

fun allPresent :: "string list \<Rightarrow> jscontext \<Rightarrow> bool" where
  "allPresent [] systemCosts = True"
| "allPresent (varName # requiredVars) systemCosts =
     (if \<not> hasKey systemCosts varName then False else allPresent requiredVars systemCosts)"

definition checkServiceSupport :: "engine \<Rightarrow> string \<Rightarrow> jscontext \<Rightarrow> bool" where
  "checkServiceSupport e serviceType systemCosts =
     allPresent (getRequiredVariables e serviceType) systemCosts"

section \<open>Cost aggregation\<close>

text \<open>
  The result of \<open>calculateTotalCost\<close>; a service cost of \<open>None\<close> is \<open>null\<close> (unsupported).
  The \<open>breakdown\<close> list is derived from \<open>services\<close> for display and is left out.
\<close>

record totalResult =
  services :: "(string \<times> jsnum option) list"
  total :: jsnum
  supportedServices :: "string list"
  unsupportedServices :: "string list"

text \<open>\<open>serviceParameters[serviceType] || {}\<close>.\<close>

definition parametersFor :: "(string \<times> jscontext) list \<Rightarrow> string \<Rightarrow> jscontext" where
  "parametersFor serviceParameters serviceType =
     (case map_of serviceParameters serviceType of None \<Rightarrow> [] | Some ps \<Rightarrow> ps)"

text \<open>
  One iteration of the loop over \<open>Object.keys(this.formulas)\<close>: the support check, then
  the \<open>try\<close> block and its \<open>catch\<close>.
\<close>

definition totalStep ::
    "runtime \<Rightarrow> engine \<Rightarrow> (string \<times> jscontext) list \<Rightarrow> string \<Rightarrow> totalResult \<Rightarrow> totalResult" where
  "totalStep rt e serviceParameters serviceType acc =
     (if \<not> checkServiceSupport e serviceType (currentSystemCosts e) then
        acc\<lparr>services := AList.update serviceType None (services acc),
            unsupportedServices := unsupportedServices acc @ [serviceType]\<rparr>
      else
        (case calculateServiceCost rt e serviceType (parametersFor serviceParameters serviceType) of
           Inr serviceCost \<Rightarrow>
             acc\<lparr>services := AList.update serviceType (Some serviceCost) (services acc),
                 supportedServices := supportedServices acc @ [serviceType],
                 total := (if \<not> isNaN serviceCost then jsAdd (total acc) serviceCost
                           else total acc)\<rparr>
         | Inl err \<Rightarrow>
             acc\<lparr>services := AList.update serviceType (Some (Fin 0)) (services acc)\<rparr>))"

definition calculateTotalCost ::
    "runtime \<Rightarrow> engine \<Rightarrow> (string \<times> jscontext) list \<Rightarrow> totalResult" where
  "calculateTotalCost rt e serviceParameters =
     fold (totalStep rt e serviceParameters) (map fst (formulas e))
       \<lparr>services = [], total = Fin 0, supportedServices = [], unsupportedServices = []\<rparr>"

section \<open>Multi-system aggregation\<close>

record systemResult = totalResult +
  systemId :: string

text \<open>
  \<open>calculateMultiSystemCosts\<close>: each system's components become the current system
  costs (an unknown system has none) before its total is calculated. The engine is
  returned with the state the loop leaves behind.
\<close>

fun calculateMultiSystemCosts ::
    "runtime \<Rightarrow> engine \<Rightarrow> string list \<Rightarrow> (string \<times> jscontext) list \<Rightarrow> systemResult list \<times> engine" where
  "calculateMultiSystemCosts rt e [] serviceParameters = ([], e)"
| "calculateMultiSystemCosts rt e (sid # systemIds) serviceParameters =
     (let systemCosts = (case map_of (systems e) sid of None \<Rightarrow> [] | Some cs \<Rightarrow> cs);
          e1 = setSystemCosts e sid systemCosts;
          result = calculateTotalCost rt e1 serviceParameters;
          (results, e2) = calculateMultiSystemCosts rt e1 systemIds serviceParameters
      in (totalResult.extend result \<lparr>systemId = sid\<rparr> # results, e2))"







section \<open>Notions used to state the properties\<close>

text \<open>
  The contribution of one multiplier entry, in the words of the specification: the
  factor raised to \<open>v - 1\<close> for the context value \<open>v\<close> of its variable (1 when absent)
  if \<open>v > 1\<close>, and 1 otherwise.
\<close>

definition entryMultiplier :: "jscontext \<Rightarrow> multiplierEntry \<Rightarrow> jsnum" where
  "entryMultiplier ctx m =
     (let v = propOr ctx (variable m) 1
      in if 1 < v then mathPow (factor m) (v - 1) else Fin 1)"

text \<open>The product of a list of numbers, left to right.\<close>

definition jsProduct :: "jsnum list \<Rightarrow> jsnum" where
  "jsProduct xs = foldl jsMul (Fin 1) xs"





text \<open>A tier that acts as the overflow tier: its limit is missing, null or zero.\<close>

definition unlimited :: "tier \<Rightarrow> bool" where
  "unlimited t = (case limit t of Some l \<Rightarrow> l = 0 | None \<Rightarrow> True)"








section \<open>Properties of the expression evaluator\<close>

lemma matchesVar_dollar: "matchesVar key (c # cs) \<Longrightarrow> c = CHR ''$''"
  by (simp add: matchesVar_def)

lemma replaceVar_no_dollar: "CHR ''$'' \<notin> set s \<Longrightarrow> replaceVar key rep s = s"
proof (induction s)
  case Nil
  then show ?case by simp
next
  case (Cons c cs)
  then have "\<not> matchesVar key (c # cs)" using matchesVar_dollar by fastforce
  with Cons show ?case by simp
qed

lemma substituteContext_no_dollar:
  "CHR ''$'' \<notin> set s \<Longrightarrow> substituteContext rt ctx s = s"
  by (induction rt ctx s rule: substituteContext.induct) (simp_all add: replaceVar_no_dollar)

lemma matchDollarWords_no_dollar: "CHR ''$'' \<notin> set s \<Longrightarrow> matchDollarWords s = []"
  by (induction s) auto

lemma processExpression_no_dollar:
  "CHR ''$'' \<notin> set s \<Longrightarrow> processExpression rt s ctx = s"
  by (simp add: processExpression_def replaceUnreplaced_def substituteContext_no_dollar
      matchDollarWords_no_dollar)

lemma substituteContext_cong_runtime:
  "numberToString rt' = numberToString rt \<Longrightarrow> substituteContext rt' ctx s = substituteContext rt ctx s"
  by (induction rt ctx s rule: substituteContext.induct) simp_all

lemma sanitize_safe: "c \<in> set (sanitize s) \<Longrightarrow> isSafeChar c"
  by (simp add: sanitize_def)

lemma trim_empty_iff: "trim s = [] \<longleftrightarrow> (\<forall>c\<in>set s. isSpace c)"
proof
  assume "trim s = []"
  then have all: "\<forall>c\<in>set (dropWhile isSpace s). isSpace c"
    by (simp add: trim_def dropWhile_eq_Nil_conv)
  have "dropWhile isSpace s = []"
  proof (rule ccontr)
    assume ne: "dropWhile isSpace s \<noteq> []"
    then have "\<not> isSpace (hd (dropWhile isSpace s))" by (rule hd_dropWhile)
    moreover have "hd (dropWhile isSpace s) \<in> set (dropWhile isSpace s)" using ne by simp
    ultimately show False using all by blast
  qed
  then show "\<forall>c\<in>set s. isSpace c" by (simp add: dropWhile_eq_Nil_conv)
next
  assume "\<forall>c\<in>set s. isSpace c"
  then have d: "dropWhile isSpace s = []" by (simp add: dropWhile_eq_Nil_conv)
  show "trim s = []" unfolding trim_def d by simp
qed


lemma sanitize_no_dollar: "CHR ''$'' \<notin> set (sanitize s)"
  by (simp add: sanitize_def isSafeChar_def isDigit_def isSpace_def)

lemma sanitize_idem: "sanitize (sanitize s) = sanitize s"
  by (simp add: sanitize_def)

text \<open>
  C1. Whatever the expression and the context, the text handed to the runtime holds only
  digits, the characters \<open>+ - * / ( ) .\<close> and whitespace, and the result is the one of
  evaluating this sanitized text on its own. The result does not depend on what the
  runtime would do with any other text: two runtimes that format numbers alike and
  agree on texts made of these characters give the same result. The string
  \<open>ignore(); return 1+1\<close> is evaluated as the sanitized remainder \<open>()  1+1\<close> in every
  context, which the plain runtime rejects, so that the result is 0.
\<close>

theorem evaluateExpression_sanitized:
  "(\<forall>c\<in>set (sanitize (processExpression rt expression ctx)).
      isDigit c \<or> c \<in> set ''+-*/().'' \<or> isSpace c) \<and>
   evaluateExpression rt expression ctx =
     evaluateExpression rt (sanitize (processExpression rt expression ctx)) [] \<and>
   (numberToString rt' = numberToString rt \<and>
    (\<forall>s. (\<forall>c\<in>set s. isSafeChar c) \<longrightarrow> runReturn rt' s = runReturn rt s)
      \<longrightarrow> evaluateExpression rt' expression ctx = evaluateExpression rt expression ctx) \<and>
   evaluateExpression rt ''ignore(); return 1+1'' ctx =
     (case runReturn rt ''()  1+1'' of Throws \<Rightarrow> Fin 0 | Returns r \<Rightarrow> nanToZero r) \<and>
   evaluateExpression plainRuntime ''ignore(); return 1+1'' ctx = Fin 0"
proof (intro conjI impI)
  show "\<forall>c\<in>set (sanitize (processExpression rt expression ctx)).
      isDigit c \<or> c \<in> set ''+-*/().'' \<or> isSpace c"
    using sanitize_safe unfolding isSafeChar_def by blast
next
  have "processExpression rt (sanitize (processExpression rt expression ctx)) [] =
        sanitize (processExpression rt expression ctx)"
    using sanitize_no_dollar by (rule processExpression_no_dollar)
  then show "evaluateExpression rt expression ctx =
     evaluateExpression rt (sanitize (processExpression rt expression ctx)) []"
    by (simp add: evaluateExpression_def sanitize_idem)
next
  assume h: "numberToString rt' = numberToString rt \<and>
    (\<forall>s. (\<forall>c\<in>set s. isSafeChar c) \<longrightarrow> runReturn rt' s = runReturn rt s)"
  from h have "substituteContext rt' ctx expression = substituteContext rt ctx expression"
    using substituteContext_cong_runtime by blast
  then have p: "processExpression rt' expression ctx = processExpression rt expression ctx"
    by (simp add: processExpression_def)
  have "\<forall>c\<in>set (sanitize (processExpression rt expression ctx)). isSafeChar c"
    by (simp add: sanitize_def)
  with h have "runReturn rt' (sanitize (processExpression rt expression ctx)) =
        runReturn rt (sanitize (processExpression rt expression ctx))"
    by blast
  then show "evaluateExpression rt' expression ctx = evaluateExpression rt expression ctx"
    by (simp add: evaluateExpression_def p Let_def)
next
  have p: "processExpression rt ''ignore(); return 1+1'' ctx = ''ignore(); return 1+1''" for rt
    by (rule processExpression_no_dollar) simp
  have s: "sanitize ''ignore(); return 1+1'' = ''()  1+1''"
    by code_simp
  have t: "trim ''()  1+1'' \<noteq> []"
    by code_simp
  show "evaluateExpression rt ''ignore(); return 1+1'' ctx =
     (case runReturn rt ''()  1+1'' of Throws \<Rightarrow> Fin 0 | Returns r \<Rightarrow> nanToZero r)"
    using t by (simp add: evaluateExpression_def p s Let_def)
  have "runReturn plainRuntime ''()  1+1'' = Throws" by code_simp
  then show "evaluateExpression plainRuntime ''ignore(); return 1+1'' ctx = Fin 0"
    using t by (simp add: evaluateExpression_def p s Let_def)
qed

theorem evaluateExpression_sanitized_witness:
  "sanitize (processExpression plainRuntime ''$a + alert(2)'' [(''a'', Some 1)]) = ''1 + (2)'' \<and>
   evaluateExpression plainRuntime ''1 + (2)'' [] = Fin 3 \<and>
   evaluateExpression
     (plainRuntime\<lparr>runReturn :=
        (\<lambda>s. if list_all isSafeChar s then arithReturn s else Returns (Fin 1))\<rparr>)
     ''$a + alert(2)'' [(''a'', Some 1)] = Fin 3"
proof -
  let ?rt' = "plainRuntime\<lparr>runReturn :=
        (\<lambda>s. if list_all isSafeChar s then arithReturn s else Returns (Fin 1))\<rparr>"
  have a: "numberToString ?rt' = numberToString plainRuntime \<and>
    (\<forall>s. (\<forall>c\<in>set s. isSafeChar c) \<longrightarrow> runReturn ?rt' s = runReturn plainRuntime s)"
    by (simp add: plainRuntime_def list_all_iff)
  have b: "evaluateExpression plainRuntime ''$a + alert(2)'' [(''a'', Some 1)] = Fin 3"
    by code_simp
  have c: "sanitize (processExpression plainRuntime ''$a + alert(2)'' [(''a'', Some 1)]) = ''1 + (2)''"
    by code_simp
  show ?thesis
    using evaluateExpression_sanitized [of plainRuntime "''$a + alert(2)''" "[(''a'', Some 1)]" ?rt'] a b c
    by simp
qed

text \<open>
  C4, as the code has it. \<open>evaluateExpression\<close> returns 0 when the sanitized string is
  empty or all whitespace, when the runtime throws, and when the runtime yields NaN.
  In every other case it returns the value of the sanitized string as it is, an
  infinite value included. The result is never NaN.
\<close>

theorem evaluateExpression_result:
  "evaluateExpression rt expression ctx =
     (let safe = sanitize (processExpression rt expression ctx)
      in if (\<forall>c\<in>set safe. isSpace c) then Fin 0
         else (case runReturn rt safe of
                 Throws \<Rightarrow> Fin 0
               | Returns r \<Rightarrow> (if r = NaN then Fin 0 else r))) \<and>
   evaluateExpression rt expression ctx \<noteq> NaN"
  by (simp add: evaluateExpression_def trim_empty_iff nanToZero_def isNaN_def Let_def
      split: outcome.splits)

theorem evaluateExpression_result_witness:
  "evaluateExpression plainRuntime ''2 * (3 + 4)'' [] = Fin 14 \<and>
   evaluateExpression plainRuntime ''abc'' [] = Fin 0 \<and>
   evaluateExpression plainRuntime ''2 +'' [] = Fin 0 \<and>
   evaluateExpression plainRuntime ''0/0'' [] = Fin 0"
proof -
  have "runReturn plainRuntime ''2 * (3 + 4)'' = Returns (Fin 14)" by code_simp
  moreover have "sanitize (processExpression plainRuntime ''2 * (3 + 4)'' []) = ''2 * (3 + 4)''" by code_simp
  moreover have "\<not> (\<forall>c\<in>set ''2 * (3 + 4)''. isSpace c)" by code_simp
  ultimately have 1: "evaluateExpression plainRuntime ''2 * (3 + 4)'' [] = Fin 14"
    using evaluateExpression_result [of plainRuntime "''2 * (3 + 4)''" "[]"] by simp
  have "sanitize (processExpression plainRuntime ''abc'' []) = []" by code_simp
  then have 2: "evaluateExpression plainRuntime ''abc'' [] = Fin 0"
    using evaluateExpression_result [of plainRuntime "''abc''" "[]"] by simp
  have "runReturn plainRuntime ''2 +'' = Throws" by code_simp
  moreover have "sanitize (processExpression plainRuntime ''2 +'' []) = ''2 +''" by code_simp
  ultimately have 3: "evaluateExpression plainRuntime ''2 +'' [] = Fin 0"
    using evaluateExpression_result [of plainRuntime "''2 +''" "[]"] by simp
  have "runReturn plainRuntime ''0/0'' = Returns NaN" by code_simp
  moreover have "sanitize (processExpression plainRuntime ''0/0'' []) = ''0/0''" by code_simp
  ultimately have 4: "evaluateExpression plainRuntime ''0/0'' [] = Fin 0"
    using evaluateExpression_result [of plainRuntime "''0/0''" "[]"] by simp
  from 1 2 3 4 show ?thesis by simp
qed

text \<open>
  The sanitized string \<open>1/0\<close> evaluates to Infinity, and \<open>evaluateExpression\<close> returns
  Infinity, not 0.
\<close>

theorem evaluateExpression_infinite_counterexample:
  "runReturn plainRuntime (sanitize (processExpression plainRuntime ''1/0'' [])) = Returns PosInf \<and>
   evaluateExpression plainRuntime ''1/0'' [] = PosInf"
  by code_simp

section \<open>Properties of the multiplier strategy\<close>

lemma jsMul_one: "jsMul x (Fin 1) = x"
  by (cases x) (simp_all add: infBy_def)

lemma multiplierLoop_foldl:
  "multiplierLoop ctx ms acc = foldl jsMul acc (map (entryMultiplier ctx) ms)"
  by (induction ms arbitrary: acc) (simp_all add: entryMultiplier_def Let_def jsMul_one)


text \<open>
  C2, as the code has it. The result of a multiplier formula is the evaluated base times
  the product of the entries' contributions, with a NaN product replaced by 0. An
  entry contributes \<open>factor ^ (v - 1)\<close> when the context value \<open>v\<close> of its variable
  exceeds 1 and 1 otherwise: nothing for an absent variable or the value 1, the factor
  once for 2, the factor squared for 3. With base \<open>100\<close>, factor 1.5 and value 3 the
  result is 225.
\<close>

theorem evaluateMultiplierFormula_product:
  "evaluateMultiplierFormula rt (BaseString b) multipliers ctx =
     Inr (nanToZero (jsMul (evaluateExpression rt b ctx)
                           (jsProduct (map (entryMultiplier ctx) multipliers)))) \<and>
   entryMultiplier [] (MultiplierEntry x f) = Fin 1 \<and>
   entryMultiplier [(x, Some 1)] (MultiplierEntry x f) = Fin 1 \<and>
   entryMultiplier [(x, Some 2)] (MultiplierEntry x f) = Fin f \<and>
   entryMultiplier [(x, Some 3)] (MultiplierEntry x f) = Fin (f * f) \<and>
   evaluateMultiplierFormula plainRuntime (BaseString ''100'') [MultiplierEntry x 1.5]
     [(x, Some 3)] = Inr (Fin 225)"
proof (intro conjI)
  show g: "evaluateMultiplierFormula rt (BaseString b) multipliers ctx =
     Inr (nanToZero (jsMul (evaluateExpression rt b ctx)
                           (jsProduct (map (entryMultiplier ctx) multipliers))))" for rt b multipliers ctx
    by (simp add: evaluateMultiplierFormula_def multiplierLoop_foldl jsProduct_def Let_def)
  show "entryMultiplier [] (MultiplierEntry x f) = Fin 1"
    by (simp add: entryMultiplier_def propOr_def getProp_def)
  show "entryMultiplier [(x, Some 1)] (MultiplierEntry x f) = Fin 1"
    by (simp add: entryMultiplier_def propOr_def getProp_def)
  show e2: "entryMultiplier [(x, Some 2)] (MultiplierEntry x f) = Fin f"
    by (simp add: entryMultiplier_def propOr_def getProp_def mathPow_def)
  show e3: "entryMultiplier [(x, Some 3)] (MultiplierEntry x f) = Fin (f * f)" for f
    by (simp add: entryMultiplier_def propOr_def getProp_def mathPow_def power2_eq_square)
  have p: "processExpression plainRuntime ''100'' [(x, Some 3)] = ''100''"
    by (rule processExpression_no_dollar) simp
  have "sanitize ''100'' = ''100''" "trim ''100'' \<noteq> []"
       "runReturn plainRuntime ''100'' = Returns (Fin 100)"
    by code_simp+
  then have b: "evaluateExpression plainRuntime ''100'' [(x, Some 3)] = Fin 100"
    by (simp add: evaluateExpression_def p Let_def nanToZero_def isNaN_def)
  show "evaluateMultiplierFormula plainRuntime (BaseString ''100'') [MultiplierEntry x 1.5]
     [(x, Some 3)] = Inr (Fin 225)"
    by (simp add: g b e3 jsProduct_def nanToZero_def isNaN_def)
qed


text \<open>
  With base \<open>100\<close>, factor -1 and context value 1.5 the product of the claim is
  \<open>100 * Math.pow(-1, 0.5)\<close>, which is NaN, and the formula evaluates to 0.
\<close>

theorem evaluateMultiplierFormula_nan_counterexample:
  "jsMul (evaluateExpression plainRuntime ''100'' [(''v'', Some 1.5)])
         (jsProduct (map (entryMultiplier [(''v'', Some 1.5)]) [MultiplierEntry ''v'' (- 1)])) = NaN \<and>
   evaluateMultiplierFormula plainRuntime (BaseString ''100'') [MultiplierEntry ''v'' (- 1)]
     [(''v'', Some 1.5)] = Inr (Fin 0)"
  by code_simp


section \<open>Properties of the conditional strategy\<close>

lemma evaluateExpression_empty: "evaluateExpression rt [] ctx = Fin 0"
proof -
  have "processExpression rt [] ctx = []"
    by (rule processExpression_no_dollar) simp
  then show ?thesis
    by (simp add: evaluateExpression_def sanitize_def trim_def)
qed

lemma evaluateClause_falsy: "falsy e \<Longrightarrow> evaluateClause rt e ctx = Inr (Fin 0)"
  by (cases e) (simp_all add: evaluateClause_def evaluateExpression_empty)

lemma conditional_else:
  "evaluateConditionalFormula rt [] els ctx =
     (case els of None \<Rightarrow> Inr (Fin 0) | Some e \<Rightarrow> evaluateClause rt e ctx)"
proof (cases els)
  case None
  then show ?thesis by simp
next
  case (Some e)
  show ?thesis
  proof (cases "falsy e")
    case True
    then show ?thesis using Some by (simp add: evaluateClause_falsy)
  next
    case False
    then show ?thesis using Some by (simp add: evaluateClause_def)
  qed
qed

lemma conditional_skip:
  "list_all (\<lambda>(c, t). \<not> evaluateCondition c ctx) pre \<Longrightarrow>
   evaluateConditionalFormula rt (pre @ rest) els ctx = evaluateConditionalFormula rt rest els ctx"
  by (induction pre) auto


text \<open>
  C8. The conditions are tried in list order: when no condition before \<open>c\<close> holds and
  \<open>c\<close> holds, the result is the value of its \<open>then\<close> clause, whatever follows in the list.
  When no condition holds the result is the value of the \<open>else\<close> clause, and 0 when
  there is none. A condition on a variable that the context lacks compares the value 0.
  With conditions \<open>x > 10\<close> and \<open>x > 5\<close> and \<open>x = 20\<close>, the clause of \<open>x > 10\<close> is taken.
\<close>

theorem evaluateConditionalFormula_first_match:
  "(list_all (\<lambda>(c, t). \<not> evaluateCondition c ctx) pre \<and> evaluateCondition c ctx \<longrightarrow>
      evaluateConditionalFormula rt (pre @ (c, thenClause) # post) els ctx =
        evaluateClause rt thenClause ctx) \<and>
   (list_all (\<lambda>(c, t). \<not> evaluateCondition c ctx) conditions \<longrightarrow>
      evaluateConditionalFormula rt conditions els ctx =
        (case els of None \<Rightarrow> Inr (Fin 0) | Some elseClause \<Rightarrow> evaluateClause rt elseClause ctx)) \<and>
   (getProp ctx v = None \<longrightarrow>
      evaluateCondition (Condition v op x) ctx = evaluateCondition (Condition v op x) [(v, Some 0)]) \<and>
   evaluateConditionalFormula rt
     [(Condition ''x'' ''>'' 10, clauseA), (Condition ''x'' ''>'' 5, clauseB)] els [(''x'', Some 20)] =
     evaluateClause rt clauseA [(''x'', Some 20)]"
proof (intro conjI impI)
  assume "list_all (\<lambda>(c, t). \<not> evaluateCondition c ctx) pre \<and> evaluateCondition c ctx"
  then show "evaluateConditionalFormula rt (pre @ (c, thenClause) # post) els ctx =
        evaluateClause rt thenClause ctx"
    by (simp add: conditional_skip evaluateClause_def)
next
  assume "list_all (\<lambda>(c, t). \<not> evaluateCondition c ctx) conditions"
  then have "evaluateConditionalFormula rt (conditions @ []) els ctx =
             evaluateConditionalFormula rt [] els ctx"
    by (rule conditional_skip)
  then show "evaluateConditionalFormula rt conditions els ctx =
        (case els of None \<Rightarrow> Inr (Fin 0) | Some elseClause \<Rightarrow> evaluateClause rt elseClause ctx)"
    by (simp add: conditional_else)
next
  assume "getProp ctx v = None"
  then show "evaluateCondition (Condition v op x) ctx = evaluateCondition (Condition v op x) [(v, Some 0)]"
    by (simp add: evaluateCondition_def propOr_def getProp_def)
next
  have "evaluateCondition (Condition ''x'' ''>'' 10) [(''x'', Some 20)]"
    by (simp add: evaluateCondition_def propOr_def getProp_def)
  then show "evaluateConditionalFormula rt
     [(Condition ''x'' ''>'' 10, clauseA), (Condition ''x'' ''>'' 5, clauseB)] els [(''x'', Some 20)] =
     evaluateClause rt clauseA [(''x'', Some 20)]"
    by (simp add: evaluateClause_def)
qed

theorem evaluateConditionalFormula_first_match_witness:
  "evaluateConditionalFormula plainRuntime
     ([(Condition ''x'' ''>'' 100, FString ''1'')] @
      (Condition ''x'' ''>'' 10, FString ''2'') # [(Condition ''x'' ''>'' 5, FString ''3'')])
     None [(''x'', Some 20)] = Inr (Fin 2) \<and>
   evaluateConditionalFormula plainRuntime
     [(Condition ''x'' ''>'' 100, FString ''1''), (Condition ''y'' ''<'' 0, FString ''2'')]
     None [(''x'', Some 20)] = Inr (Fin 0) \<and>
   evaluateConditionalFormula plainRuntime
     [(Condition ''x'' ''>'' 100, FString ''1''), (Condition ''y'' ''<'' 0, FString ''2'')]
     (Some (FString ''$x + 1'')) [(''x'', Some 20)] = Inr (Fin 21) \<and>
   \<not> evaluateCondition (Condition ''y'' ''<'' 0) [(''x'', Some 20)]"
proof -
  let ?ctx = "[(''x'', Some (20::real))]"
  have a: "list_all (\<lambda>(c, t). \<not> evaluateCondition c ?ctx) [(Condition ''x'' ''>'' 100, FString ''1'')] \<and>
           evaluateCondition (Condition ''x'' ''>'' 10) ?ctx"
    by code_simp
  have b: "evaluateClause plainRuntime (FString ''2'') ?ctx = Inr (Fin 2)"
    by code_simp
  have c: "list_all (\<lambda>(c, t). \<not> evaluateCondition c ?ctx)
      [(Condition ''x'' ''>'' 100, FString ''1''), (Condition ''y'' ''<'' 0, FString ''2'')]"
    by code_simp
  have d: "evaluateClause plainRuntime (FString ''$x + 1'') ?ctx = Inr (Fin 21)"
    by code_simp
  have e: "getProp ?ctx ''y'' = None" "\<not> evaluateCondition (Condition ''y'' ''<'' 0) [(''y'', Some 0)]"
    by code_simp+
  note t = evaluateConditionalFormula_first_match
  from a b t [of ?ctx "[(Condition ''x'' ''>'' 100, FString ''1'')]" "Condition ''x'' ''>'' 10"
      plainRuntime "FString ''2''" "[(Condition ''x'' ''>'' 5, FString ''3'')]" None]
  have 1: "evaluateConditionalFormula plainRuntime
     ([(Condition ''x'' ''>'' 100, FString ''1'')] @
      (Condition ''x'' ''>'' 10, FString ''2'') # [(Condition ''x'' ''>'' 5, FString ''3'')])
     None ?ctx = Inr (Fin 2)" by simp
  from c t [of ?ctx _ _ plainRuntime _ _ None
      "[(Condition ''x'' ''>'' 100, FString ''1''), (Condition ''y'' ''<'' 0, FString ''2'')]"]
  have 2: "evaluateConditionalFormula plainRuntime
     [(Condition ''x'' ''>'' 100, FString ''1''), (Condition ''y'' ''<'' 0, FString ''2'')]
     None ?ctx = Inr (Fin 0)" by simp
  from c d t [of ?ctx _ _ plainRuntime _ _ "Some (FString ''$x + 1'')"
      "[(Condition ''x'' ''>'' 100, FString ''1''), (Condition ''y'' ''<'' 0, FString ''2'')]"]
  have 3: "evaluateConditionalFormula plainRuntime
     [(Condition ''x'' ''>'' 100, FString ''1''), (Condition ''y'' ''<'' 0, FString ''2'')]
     (Some (FString ''$x + 1'')) ?ctx = Inr (Fin 21)" by simp
  from e t [of ?ctx _ _ _ _ _ _ _ "''y''" "''<''" 0]
  have 4: "\<not> evaluateCondition (Condition ''y'' ''<'' 0) ?ctx" by simp
  from 1 2 3 4 show ?thesis by simp
qed

section \<open>Properties of the tiered strategy\<close>

lemma tierLoop_done: "remainingVolume \<le> 0 \<Longrightarrow> tierLoop rt ctx ts cost remainingVolume = cost"
  by (cases ts) simp_all

lemma tierLoop_unlimited:
  assumes "unlimited t" and "0 < remainingVolume"
  shows "tierLoop rt ctx (t # rest) cost remainingVolume =
           jsAdd cost (jsMul (Fin remainingVolume) (tierRate rt ctx t))"
proof -
  have "limitOr t remainingVolume = remainingVolume"
    using assms(1) by (simp add: unlimited_def limitOr_def split: option.splits)
  then show ?thesis
    using assms(2) by (simp add: Let_def tierLoop_done)
qed

lemma tierLoop_unlimited_cut:
  "unlimited t \<Longrightarrow>
   tierLoop rt ctx (pre @ t # post) cost remainingVolume =
   tierLoop rt ctx (pre @ [t]) cost remainingVolume"
proof (induction pre arbitrary: cost remainingVolume)
  case Nil
  show ?case
  proof (cases "0 < remainingVolume")
    case True
    have "tierLoop rt ctx (t # post) cost remainingVolume =
            jsAdd cost (jsMul (Fin remainingVolume) (tierRate rt ctx t))"
      using Nil True by (rule tierLoop_unlimited)
    moreover have "tierLoop rt ctx [t] cost remainingVolume =
            jsAdd cost (jsMul (Fin remainingVolume) (tierRate rt ctx t))"
      using Nil True by (rule tierLoop_unlimited)
    ultimately show ?thesis by simp
  next
    case False
    then show ?thesis by (simp add: tierLoop_done)
  qed
next
  case (Cons p pre)
  then show ?case by (simp add: Let_def)
qed


text \<open>
  C10. A tier whose limit is missing, null or 0 takes all the volume that remains when
  it is reached, at its rate: a limit of 0 means no limit, not an empty tier. The tiers
  listed after it add nothing: the formula evaluates as if the list ended with it.
\<close>

theorem tierLoop_zero_limit_absorbs:
  "(unlimited t \<and> 0 < remainingVolume \<longrightarrow>
      tierLoop rt ctx (t # rest) cost remainingVolume =
        jsAdd cost (jsMul (Fin remainingVolume) (tierRate rt ctx t))) \<and>
   (unlimited t \<longrightarrow>
      evaluateTieredFormula rt volumeVar (pre @ t # post) ctx =
        evaluateTieredFormula rt volumeVar (pre @ [t]) ctx) \<and>
   unlimited (Tier (Some 0) r) \<and> unlimited (Tier None r)"
proof (intro conjI impI)
  assume "unlimited t \<and> 0 < remainingVolume"
  then show "tierLoop rt ctx (t # rest) cost remainingVolume =
        jsAdd cost (jsMul (Fin remainingVolume) (tierRate rt ctx t))"
    using tierLoop_unlimited by blast
next
  assume "unlimited t"
  then show "evaluateTieredFormula rt volumeVar (pre @ t # post) ctx =
        evaluateTieredFormula rt volumeVar (pre @ [t]) ctx"
    unfolding evaluateTieredFormula_def by (rule tierLoop_unlimited_cut)
next
  show "unlimited (Tier (Some 0) r)" by (simp add: unlimited_def)
  show "unlimited (Tier None r)" by (simp add: unlimited_def)
qed

theorem tierLoop_zero_limit_absorbs_witness:
  "evaluateTieredFormula plainRuntime ''v''
     ([Tier (Some 1000) (RateNum 0.025)] @ Tier (Some 0) (RateNum 0.02) # [Tier None (RateNum 0.5)])
     [(''v'', Some 1500)] = Fin 35 \<and>
   tierLoop plainRuntime [] (Tier (Some 0) (RateNum 0.02) # [Tier None (RateNum 0.5)]) (Fin 25) 500 = Fin 35"
proof -
  have u: "unlimited (Tier (Some 0) (RateNum 0.02))" by (simp add: unlimited_def)
  have a: "evaluateTieredFormula plainRuntime ''v''
     ([Tier (Some 1000) (RateNum 0.025)] @ [Tier (Some 0) (RateNum 0.02)]) [(''v'', Some 1500)] = Fin 35"
    by code_simp
  have b: "jsAdd (Fin 25) (jsMul (Fin 500) (tierRate plainRuntime [] (Tier (Some 0) (RateNum 0.02)))) = Fin 35"
    by code_simp
  from u a b
    tierLoop_zero_limit_absorbs [where t = "Tier (Some 0) (RateNum 0.02)" and rt = plainRuntime
      and remainingVolume = 500 and ctx = "[]" and rest = "[Tier None (RateNum 0.5)]"
      and cost = "Fin 25"]
    tierLoop_zero_limit_absorbs [where t = "Tier (Some 0) (RateNum 0.02)" and rt = plainRuntime
      and volumeVar = "''v''" and pre = "[Tier (Some 1000) (RateNum 0.025)]"
      and post = "[Tier None (RateNum 0.5)]" and ctx = "[(''v'', Some 1500)]"]
  show ?thesis by simp
qed














section \<open>Properties of the substitution pass\<close>

lemma dollar_not_word: "\<not> isWordChar (CHR ''$'')"
  by (simp add: isWordChar_def isLetter_def isDigit_def)

lemma word_key_no_dollar: "list_all isWordChar key \<Longrightarrow> CHR ''$'' \<notin> set key"
  using dollar_not_word by (auto simp: list_all_iff)

lemma startsWith_append_other:
  "x \<notin> set p \<Longrightarrow> startsWith (s @ x # b) p = startsWith s p"
  by (induction s p rule: startsWith.induct) auto

lemma startsWith_length: "startsWith s p \<Longrightarrow> length p \<le> length s"
  by (induction s p rule: startsWith.induct) auto

lemma startsWith_append_self: "startsWith (p @ s) p"
  by (induction p) auto

lemma wordBoundary_before_dollar:
  "wordBoundary prev (r @ CHR ''$'' # b) = wordBoundary prev r"
  by (cases r) (simp_all add: wordBoundary_def dollar_not_word)

lemma matchesVar_append_dollar:
  assumes "CHR ''$'' \<notin> set key"
  shows "matchesVar key ((c # cs) @ CHR ''$'' # b) = matchesVar key (c # cs)"
proof (cases "c = CHR ''$'' \<and> startsWith cs key")
  case True
  then have len: "length key \<le> length cs" using startsWith_length by blast
  have sw: "startsWith (cs @ CHR ''$'' # b) key" using True assms by (simp add: startsWith_append_other)
  have "drop (length key) (cs @ CHR ''$'' # b) = drop (length key) cs @ CHR ''$'' # b"
    using len by simp
  then show ?thesis
    using True sw by (simp add: matchesVar_def wordBoundary_before_dollar)
next
  case False
  then show ?thesis
    using assms by (auto simp: matchesVar_def startsWith_append_other)
qed

lemma replaceVar_append_dollar:
  assumes "CHR ''$'' \<notin> set key"
  shows "replaceVar key rep (a @ CHR ''$'' # b) = replaceVar key rep a @ replaceVar key rep (CHR ''$'' # b)"
proof (induction a rule: length_induct)
  case (1 a)
  show ?case
  proof (cases a)
    case Nil
    then show ?thesis by simp
  next
    case (Cons c cs)
    have m: "matchesVar key (c # cs @ CHR ''$'' # b) = matchesVar key (c # cs)"
      using matchesVar_append_dollar [OF assms, of c cs b] by simp
    show ?thesis
    proof (cases "matchesVar key (c # cs)")
      case True
      then have "startsWith cs key" by (simp add: matchesVar_def)
      then have len: "length key \<le> length cs" by (rule startsWith_length)
      have d: "drop (length key) (cs @ CHR ''$'' # b) = drop (length key) cs @ CHR ''$'' # b"
        using len by simp
      have "length (drop (length key) cs) < length a" using Cons by simp
      then have "replaceVar key rep (drop (length key) cs @ CHR ''$'' # b) =
                 replaceVar key rep (drop (length key) cs) @ replaceVar key rep (CHR ''$'' # b)"
        using 1 by blast
      then show ?thesis using True m d Cons by simp
    next
      case False
      have "length cs < length a" using Cons by simp
      then have "replaceVar key rep (cs @ CHR ''$'' # b) =
                 replaceVar key rep cs @ replaceVar key rep (CHR ''$'' # b)"
        using 1 by blast
      then show ?thesis using False m Cons by simp
    qed
  qed
qed

lemma replaceVar_skip_plain:
  "CHR ''$'' \<notin> set k \<Longrightarrow> replaceVar key rep (k @ s) = k @ replaceVar key rep s"
proof (induction k)
  case Nil
  then show ?case by simp
next
  case (Cons c k)
  then have "\<not> matchesVar key (c # k @ s)" using matchesVar_dollar by fastforce
  with Cons show ?case by simp
qed

lemma matchesVar_longer_name:
  assumes "key \<noteq> []" and "list_all isWordChar key" and "isWordChar d"
  shows "\<not> matchesVar key (CHR ''$'' # key @ d # post)"
proof -
  have "isWordChar (last key)" using assms(1,2) by (simp add: list_all_iff)
  then show ?thesis
    using assms(1,3) by (simp add: matchesVar_def wordBoundary_def)
qed


text \<open>
  C9, as the code has it. The pattern of a key ends in a word boundary, so a key made of
  word characters is not substituted inside a reference to a longer name that goes on
  with a word character: the reference stays as it is, whatever surrounds it, and is
  left to the longer key. The substitution depends on the iteration order only where
  the longer name goes on with another character: with the keys \<open>rate\<close> and
  \<open>rate-advanced\<close>, the text \<open>$rate-advanced\<close> becomes \<open>5-advanced\<close> when \<open>rate\<close> comes
  first and \<open>7\<close> when it comes second.
\<close>

theorem replaceVar_keeps_longer_reference:
  "(key \<noteq> [] \<and> list_all isWordChar key \<and> isWordChar d \<longrightarrow>
      replaceVar key rep (pre @ ''$'' @ key @ d # post) =
        replaceVar key rep pre @ ''$'' @ key @ replaceVar key rep (d # post)) \<and>
   processExpression plainRuntime ''$rate-advanced'' [(''rate'', Some 5), (''rate-advanced'', Some 7)] =
     ''5-advanced'' \<and>
   processExpression plainRuntime ''$rate-advanced'' [(''rate-advanced'', Some 7), (''rate'', Some 5)] =
     ''7'' \<and>
   evaluateExpression plainRuntime ''$rate-advanced'' [(''rate'', Some 5), (''rate-advanced'', Some 7)] =
     Fin 0 \<and>
   evaluateExpression plainRuntime ''$rate-advanced'' [(''rate-advanced'', Some 7), (''rate'', Some 5)] =
     Fin 7"
proof (intro conjI impI)
  assume h: "key \<noteq> [] \<and> list_all isWordChar key \<and> isWordChar d"
  then have nd: "CHR ''$'' \<notin> set key" using word_key_no_dollar by blast
  have nm: "\<not> matchesVar key (CHR ''$'' # key @ d # post)"
    using h matchesVar_longer_name by blast
  have "replaceVar key rep (pre @ CHR ''$'' # key @ d # post) =
        replaceVar key rep pre @ replaceVar key rep (CHR ''$'' # key @ d # post)"
    using nd by (rule replaceVar_append_dollar)
  also have "replaceVar key rep (CHR ''$'' # key @ d # post) =
        CHR ''$'' # replaceVar key rep (key @ d # post)"
    using nm by simp
  also have "replaceVar key rep (key @ d # post) = key @ replaceVar key rep (d # post)"
    using nd by (rule replaceVar_skip_plain)
  finally show "replaceVar key rep (pre @ ''$'' @ key @ d # post) =
        replaceVar key rep pre @ ''$'' @ key @ replaceVar key rep (d # post)"
    by simp
next
  show "processExpression plainRuntime ''$rate-advanced'' [(''rate'', Some 5), (''rate-advanced'', Some 7)] =
     ''5-advanced''" by code_simp
  show "processExpression plainRuntime ''$rate-advanced'' [(''rate-advanced'', Some 7), (''rate'', Some 5)] =
     ''7''" by code_simp
  show "evaluateExpression plainRuntime ''$rate-advanced'' [(''rate'', Some 5), (''rate-advanced'', Some 7)] =
     Fin 0" by code_simp
  show "evaluateExpression plainRuntime ''$rate-advanced'' [(''rate-advanced'', Some 7), (''rate'', Some 5)] =
     Fin 7" by code_simp
qed

theorem replaceVar_keeps_longer_reference_witness:
  "replaceVar ''rate'' ''5'' (''$rate * '' @ ''$'' @ ''rate'' @ CHR ''_'' # ''advanced + $rate'') =
     ''5 * $rate_advanced + 5''"
proof -
  have a: "''rate'' \<noteq> [] \<and> list_all isWordChar ''rate'' \<and> isWordChar (CHR ''_'')"
    by code_simp
  have b: "replaceVar ''rate'' ''5'' ''$rate * '' = ''5 * ''"
          "replaceVar ''rate'' ''5'' (CHR ''_'' # ''advanced + $rate'') = ''_advanced + 5''"
    by code_simp+
  from a b replaceVar_keeps_longer_reference [where key = "''rate''" and d = "CHR ''_''"
      and rep = "''5''" and pre = "''$rate * ''" and post = "''advanced + $rate''"]
  show ?thesis by simp
qed


text \<open>
  The key \<open>rate\<close> leaves the reference \<open>$rate_advanced\<close> untouched, and in either
  iteration order the reference is replaced by the value of \<open>rate_advanced\<close>.
\<close>

theorem substitution_prefix_counterexample:
  "replaceVar ''rate'' ''5'' ''$rate_advanced'' = ''$rate_advanced'' \<and>
   processExpression plainRuntime ''$rate_advanced'' [(''rate'', Some 5), (''rate_advanced'', Some 7)] =
     ''7'' \<and>
   processExpression plainRuntime ''$rate_advanced'' [(''rate_advanced'', Some 7), (''rate'', Some 5)] =
     ''7'' \<and>
   evaluateExpression plainRuntime ''$rate_advanced * $rate''
     [(''rate'', Some 5), (''rate_advanced'', Some 7)] = Fin 35"
  by code_simp

section \<open>Properties of the support check\<close>









section \<open>Properties of the cost aggregation\<close>









section \<open>Properties of the multi-system combination\<close>

text \<open>
  \<open>calculateMultiSystemCosts\<close> gives one result per system id, in order: the total
  calculated with that system's components as the current costs, whatever systems came
  before it.
\<close>

lemma setSystemCosts_twice:
  "setSystemCosts (setSystemCosts e a x) b y = setSystemCosts e b y"
  by (simp add: setSystemCosts_def)

lemma calculateMultiSystemCosts_results:
  "fst (calculateMultiSystemCosts rt e systemIds serviceParameters) =
     map (\<lambda>sid. totalResult.extend
            (calculateTotalCost rt
               (setSystemCosts e sid (case map_of (systems e) sid of None \<Rightarrow> [] | Some cs \<Rightarrow> cs))
               serviceParameters)
            \<lparr>systemId = sid\<rparr>) systemIds"
proof (induction systemIds arbitrary: e)
  case Nil
  then show ?case by simp
next
  case (Cons sid systemIds)
  let ?e1 = "setSystemCosts e sid (case map_of (systems e) sid of None \<Rightarrow> [] | Some cs \<Rightarrow> cs)"
  have s: "systems ?e1 = systems e" by (simp add: setSystemCosts_def)
  show ?case
    using Cons.IH [of ?e1]
    by (simp add: Let_def split_beta s setSystemCosts_twice)
qed
















end
